theory Spec2Isabelle
  imports Main "HOL-Library.Char_ord" "HOL-Library.List_Lexorder"
begin

section \<open>The accidental-secret-leak rule and the trust-boundary helpers\<close>

text \<open>
  A shallow embedding of \<^verbatim>\<open>pkg/risks/builtin/accidental_secret_leak_rule.go\<close> and of the
  helper functions of the same package (\<^verbatim>\<open>isAcrossTrustBoundaryNetworkOnly\<close>,
  \<^verbatim>\<open>isNetworkOnly\<close>, \<^verbatim>\<open>isSameExecutionEnvironment\<close>, ...). The rule and the helpers are
  translated function by function. The declarations of package \<^verbatim>\<open>types\<close> that they use
  are not part of the sources at hand; they are either parameters (fields of the model,
  an argument of the function) or modelled from the specification, and marked as such.
\<close>

subsection \<open>Go values: pointers, panics, strings\<close>

text \<open>A pointer is \<open>None\<close> when it is \<^verbatim>\<open>nil\<close>. Reading a field through a nil pointer panics.\<close>

type_synonym 'a ptr = "'a option"

datatype panic = NilPointerDereference

type_synonym 'a result = "panic + 'a"

text \<open>
  \<^verbatim>\<open>v, ok := m[k]\<close> on a map whose values are pointers: a missing key gives the zero value
  \<^verbatim>\<open>nil\<close> and \<^verbatim>\<open>false\<close>; a key that is present gives the stored pointer (which Go
  allows to be \<^verbatim>\<open>nil\<close>) and \<^verbatim>\<open>true\<close>.
\<close>

definition commaOk :: "('k \<rightharpoonup> 'a ptr) \<Rightarrow> 'k \<Rightarrow> 'a ptr \<times> bool" where
  "commaOk m k = (case m k of None \<Rightarrow> (None, False) | Some p \<Rightarrow> (p, True))"

text \<open>
  \<^verbatim>\<open>strings.ToLower\<close>, \<^verbatim>\<open>strings.TrimSpace\<close> and \<^verbatim>\<open>strings.EqualFold\<close> of the Go
  library, on strings as byte lists. The model is the library's behaviour on ASCII text:
  bytes outside ASCII are left alone, where Go would also fold and trim Unicode letters
  and spaces. Two strings that the model folds to each other are folded to each other by
  Go as well; on text with letters outside ASCII Go matches more than the model does.
\<close>

definition ToLower_char :: "char \<Rightarrow> char" where
  "ToLower_char c =
     (case map_of (zip ''ABCDEFGHIJKLMNOPQRSTUVWXYZ'' ''abcdefghijklmnopqrstuvwxyz'') c of
        None \<Rightarrow> c | Some l \<Rightarrow> l)"

definition ToLower :: "string \<Rightarrow> string" where
  "ToLower s = map ToLower_char s"

definition isSpace :: "char \<Rightarrow> bool" where
  "isSpace c = (c \<in> set [CHR 0x09, CHR 0x0A, CHR 0x0B, CHR 0x0C, CHR 0x0D, CHR '' ''])"

definition TrimSpace :: "string \<Rightarrow> string" where
  "TrimSpace s = rev (dropWhile isSpace (rev (dropWhile isSpace s)))"

definition EqualFold :: "string \<Rightarrow> string \<Rightarrow> bool" where
  "EqualFold s t = (ToLower s = ToLower t)"

text \<open>
  A call of \<^verbatim>\<open>fmt.Sprintf\<close> is kept as its format string and its arguments: the rendering
  of \<^verbatim>\<open>%v\<close> and \<^verbatim>\<open>%q\<close> belongs to the Go library and to the \<^verbatim>\<open>String\<close> methods of
  package \<^verbatim>\<open>types\<close>.
\<close>

subsection \<open>Package types: enumerations\<close>

text \<open>
  Modelled from the spec: the enumerations of package \<^verbatim>\<open>types\<close> (declared outside the
  sources at hand). Confidentiality is the totally ordered enumeration
  Public, Internal, Restricted, Confidential, StrictlyConfidential, the last being the
  maximum. Integrity and availability share one totally ordered enumeration of
  criticality in which Critical lies directly below the maximum MissionCritical.
  Go compares the enumerations' integer values, given here by \<open>_value\<close>.
\<close>

datatype Confidentiality = Public | Internal | Restricted | Confidential | StrictlyConfidential

fun Confidentiality_value :: "Confidentiality \<Rightarrow> nat" where
  "Confidentiality_value Public = 0"
| "Confidentiality_value Internal = 1"
| "Confidentiality_value Restricted = 2"
| "Confidentiality_value Confidential = 3"
| "Confidentiality_value StrictlyConfidential = 4"

datatype Criticality = Archive | Operational | Important | Critical | MissionCritical

fun Criticality_value :: "Criticality \<Rightarrow> nat" where
  "Criticality_value Archive = 0"
| "Criticality_value Operational = 1"
| "Criticality_value Important = 2"
| "Criticality_value Critical = 3"
| "Criticality_value MissionCritical = 4"

text \<open>
  Modelled from the spec: the three impact tiers, ordered Low \<open>\<le>\<close> Medium \<open>\<le>\<close> High, the
  likelihood estimates (this rule supplies \<open>Unlikely\<close> only) and the data breach
  probabilities (this rule supplies \<open>Probable\<close> only).
\<close>

datatype RiskExploitationImpact = LowImpact | MediumImpact | HighImpact

fun RiskExploitationImpact_value :: "RiskExploitationImpact \<Rightarrow> nat" where
  "RiskExploitationImpact_value LowImpact = 0"
| "RiskExploitationImpact_value MediumImpact = 1"
| "RiskExploitationImpact_value HighImpact = 2"

datatype RiskExploitationLikelihood = Unlikely | Likely | VeryLikely | Frequent

datatype DataBreachProbability = Improbable | Possible | Probable

datatype RiskFunction = BusinessSide | Architecture | Development | Operations

datatype STRIDE = Spoofing | Tampering | Repudiation | InformationDisclosure
  | DenialOfService | ElevationOfPrivilege

text \<open>
  Modelled from the spec: the kind of a trust boundary, an enumeration that divides into
  network kinds and non-network kinds, the execution environment being a non-network
  kind. The rule's helpers read a kind through \<^verbatim>\<open>IsNetworkBoundary\<close> and through
  comparison with \<^verbatim>\<open>ExecutionEnvironment\<close> only; the number tells the further kinds of
  either class apart.
\<close>

datatype TrustBoundaryType = ExecutionEnvironment | NetworkKind nat | OtherNonNetworkKind nat

fun IsNetworkBoundary :: "TrustBoundaryType \<Rightarrow> bool" where
  "IsNetworkBoundary (NetworkKind _) = True"
| "IsNetworkBoundary ExecutionEnvironment = False"
| "IsNetworkBoundary (OtherNonNetworkKind _) = False"

subsection \<open>Package types: the model graph\<close>

text \<open>
  Modelled from the spec: a technology carries boolean attributes, looked up by name;
  the rule asks for three of them. An asset has a list of technologies, and
  \<^verbatim>\<open>Technologies.GetAttribute\<close> holds when one of them carries the attribute.
\<close>

datatype TechnologyAttribute = MayContainSecrets | SourcecodeRepository | ArtifactRegistry

record Technology =
  Tech_Name :: string
  Tech_Attributes :: "TechnologyAttribute \<Rightarrow> bool"

definition GetAttribute :: "Technology list \<Rightarrow> TechnologyAttribute \<Rightarrow> bool" where
  "GetAttribute technologies attribute = list_ex (\<lambda>t. Tech_Attributes t attribute) technologies"

record TechnicalAsset =
  TA_Id :: string
  TA_Title :: string
  OutOfScope :: bool
  Technologies :: "Technology list"
  Tags :: "string list"

record CommunicationLink =
  SourceId :: string
  TargetId :: string

record TrustBoundary =
  TB_Id :: string
  TB_Type :: TrustBoundaryType

text \<open>
  The model. \<open>TechnicalAssets\<close> is the Go map from identifier to asset, as an association
  list read with \<open>map_of\<close> (a later pair with a key already present is not part of the
  map). The map of direct containing trust boundaries stores pointers. The queries that
  package \<^verbatim>\<open>types\<close> computes from the rest of the model (the parent of a boundary, the
  highest sensitivity of the data an asset processes) are fields: the functions below
  take them as they come.
\<close>

record Model =
  TechnicalAssets :: "(string \<times> TechnicalAsset) list"
  DirectContainingTrustBoundaryMappedByTechnicalAssetId :: "string \<rightharpoonup> TrustBoundary ptr"
  FindParentTrustBoundary :: "TrustBoundary \<Rightarrow> TrustBoundary ptr"
  HighestProcessedConfidentiality :: "TechnicalAsset \<Rightarrow> Confidentiality"
  HighestProcessedIntegrity :: "TechnicalAsset \<Rightarrow> Criticality"
  HighestProcessedAvailability :: "TechnicalAsset \<Rightarrow> Criticality"

text \<open>
  Modelled from the spec: \<^verbatim>\<open>SortedTechnicalAssetIDs\<close>, the keys of the map of technical
  assets in sorted order (bytewise, as \<^verbatim>\<open>sort.Strings\<close> orders them), each key once.
\<close>

definition SortedTechnicalAssetIDs :: "Model \<Rightarrow> string list" where
  "SortedTechnicalAssetIDs parsedModel = sort (remdups (map fst (TechnicalAssets parsedModel)))"

record RiskCategory =
  ID :: string
  RC_Title :: string
  Description :: string
  Impact :: string
  ASVS :: string
  CheatSheet :: string
  Action :: string
  Mitigation :: string
  Check :: string
  Function :: RiskFunction
  STRIDE :: STRIDE
  DetectionLogic :: string
  RiskAssessment :: string
  FalsePositives :: string
  ModelFailurePossibleReason :: bool
  CWE :: nat

text \<open>
  A risk, with the fields that \<^verbatim>\<open>createRisk\<close> sets. The severity is what
  \<^verbatim>\<open>types.CalculateSeverity\<close> returns; that function and its result type belong to package
  \<^verbatim>\<open>types\<close> and are a parameter of \<open>createRisk\<close>.
\<close>

record 'sev Risk =
  CategoryId :: string
  Severity :: 'sev
  ExploitationLikelihood :: RiskExploitationLikelihood
  ExploitationImpact :: RiskExploitationImpact
  Title :: string
  MostRelevantTechnicalAssetId :: string
  DataBreachProbability :: DataBreachProbability
  DataBreachTechnicalAssetIDs :: "string list"
  SyntheticId :: string

datatype go_error = Error string

datatype fmt_arg =
  ArgString string
  | ArgBool bool
  | ArgTechnologies "Technology list"
  | ArgAttribute TechnologyAttribute
  | ArgImpact RiskExploitationImpact
  | ArgConfidentiality Confidentiality
  | ArgCriticality Criticality

datatype line = Text string | Sprintf string "fmt_arg list"

subsection \<open>helpers.go\<close>

fun contains :: "string list \<Rightarrow> string \<Rightarrow> bool" where
  "contains [] x = False"
| "contains (n # a) x = (if x = n then True else contains a x)"

fun containsCaseInsensitiveAny_inner :: "string \<Rightarrow> string list \<Rightarrow> bool" where
  "containsCaseInsensitiveAny_inner n [] = False"
| "containsCaseInsensitiveAny_inner n (c # x) =
     (if TrimSpace (ToLower c) = TrimSpace (ToLower n) then True
      else containsCaseInsensitiveAny_inner n x)"

fun containsCaseInsensitiveAny :: "string list \<Rightarrow> string list \<Rightarrow> bool" where
  "containsCaseInsensitiveAny [] x = False"
| "containsCaseInsensitiveAny (n # a) x =
     (if containsCaseInsensitiveAny_inner n x then True else containsCaseInsensitiveAny a x)"

text \<open>
  Modelled from the spec: \<^verbatim>\<open>TechnicalAsset.IsTaggedWithAny\<close>, a method of package
  \<^verbatim>\<open>types\<close>: the asset's free-form tags are searched, ignoring case, for one of the tags
  given.
\<close>

definition IsTaggedWithAny :: "TechnicalAsset \<Rightarrow> string list \<Rightarrow> bool" where
  "IsTaggedWithAny what tags = containsCaseInsensitiveAny (Tags what) tags"

definition isNetworkOnly :: "Model \<Rightarrow> bool \<Rightarrow> TrustBoundary ptr \<Rightarrow> bool result" where
  "isNetworkOnly parsedModel trustBoundaryOk trustBoundary =
     (if \<not> trustBoundaryOk then Inr False
      else case trustBoundary of
        None \<Rightarrow> Inl NilPointerDereference
      | Some tb \<Rightarrow>
          if \<not> IsNetworkBoundary (TB_Type tb) then
            (let parentTrustBoundary = FindParentTrustBoundary parsedModel tb in
             if parentTrustBoundary \<noteq> None then Inr False else Inr True)
          else Inr True)"

definition isAcrossNetworkTrustBoundary ::
  "TrustBoundary ptr \<Rightarrow> TrustBoundary ptr \<Rightarrow> bool result" where
  "isAcrossNetworkTrustBoundary trustBoundaryOfSourceAsset trustBoundaryOfTargetAsset =
     (case trustBoundaryOfSourceAsset of
        None \<Rightarrow> Inl NilPointerDereference
      | Some s \<Rightarrow>
          (case trustBoundaryOfTargetAsset of
             None \<Rightarrow> Inl NilPointerDereference
           | Some t \<Rightarrow> Inr (TB_Id s \<noteq> TB_Id t \<and> IsNetworkBoundary (TB_Type t))))"

definition isAcrossTrustBoundaryNetworkOnly :: "Model \<Rightarrow> CommunicationLink \<Rightarrow> bool result" where
  "isAcrossTrustBoundaryNetworkOnly parsedModel communicationLink =
     (let (trustBoundaryOfSourceAsset, trustBoundaryOfSourceAssetOk) =
            commaOk (DirectContainingTrustBoundaryMappedByTechnicalAssetId parsedModel)
              (SourceId communicationLink)
      in case isNetworkOnly parsedModel trustBoundaryOfSourceAssetOk trustBoundaryOfSourceAsset of
           Inl p \<Rightarrow> Inl p
         | Inr sourceIsNetworkOnly \<Rightarrow>
             if \<not> sourceIsNetworkOnly then Inr False
             else
               (let (trustBoundaryOfTargetAsset, trustBoundaryOfTargetAssetOk) =
                      commaOk (DirectContainingTrustBoundaryMappedByTechnicalAssetId parsedModel)
                        (TargetId communicationLink)
                in case isNetworkOnly parsedModel trustBoundaryOfTargetAssetOk
                          trustBoundaryOfTargetAsset of
                     Inl p \<Rightarrow> Inl p
                   | Inr targetIsNetworkOnly \<Rightarrow>
                       if \<not> targetIsNetworkOnly then Inr False
                       else isAcrossNetworkTrustBoundary trustBoundaryOfSourceAsset
                              trustBoundaryOfTargetAsset))"

definition isSameExecutionEnvironment :: "Model \<Rightarrow> TechnicalAsset \<Rightarrow> string \<Rightarrow> bool result" where
  "isSameExecutionEnvironment parsedModel ta otherAssetId =
     (let (trustBoundaryOfMyAsset, trustBoundaryOfMyAssetOk) =
            commaOk (DirectContainingTrustBoundaryMappedByTechnicalAssetId parsedModel) (TA_Id ta);
          (trustBoundaryOfOtherAsset, trustBoundaryOfOtherAssetOk) =
            commaOk (DirectContainingTrustBoundaryMappedByTechnicalAssetId parsedModel) otherAssetId
      in if trustBoundaryOfMyAssetOk \<noteq> trustBoundaryOfOtherAssetOk then Inr False
         else if \<not> trustBoundaryOfMyAssetOk \<and> \<not> trustBoundaryOfOtherAssetOk then Inr True
         else
           (case trustBoundaryOfMyAsset of
              None \<Rightarrow> Inl NilPointerDereference
            | Some my \<Rightarrow>
                if TB_Type my = ExecutionEnvironment then
                  (case trustBoundaryOfOtherAsset of
                     None \<Rightarrow> Inl NilPointerDereference
                   | Some other \<Rightarrow>
                       if TB_Type other = ExecutionEnvironment then Inr (TB_Id my = TB_Id other)
                       else Inr False)
                else Inr False))"

text \<open>
  The two assignments under \<^verbatim>\<open>// find and use the parent boundary then\<close>: a boundary that
  is there and is not a network boundary is replaced by its parent, and the flag by
  whether there is a parent.
\<close>

definition isSameTrustBoundaryNetworkOnly :: "Model \<Rightarrow> TechnicalAsset \<Rightarrow> string \<Rightarrow> bool" where
  "isSameTrustBoundaryNetworkOnly parsedModel ta otherAssetId =
     (let (trustBoundaryOfMyAsset, trustBoundaryOfMyAssetOk) =
            commaOk (DirectContainingTrustBoundaryMappedByTechnicalAssetId parsedModel) (TA_Id ta);
          (trustBoundaryOfMyAsset, trustBoundaryOfMyAssetOk) =
            (case trustBoundaryOfMyAsset of
               None \<Rightarrow> (trustBoundaryOfMyAsset, trustBoundaryOfMyAssetOk)
             | Some my \<Rightarrow>
                 if \<not> IsNetworkBoundary (TB_Type my) then
                   (let parent = FindParentTrustBoundary parsedModel my in (parent, parent \<noteq> None))
                 else (trustBoundaryOfMyAsset, trustBoundaryOfMyAssetOk));
          (trustBoundaryOfOtherAsset, trustBoundaryOfOtherAssetOk) =
            commaOk (DirectContainingTrustBoundaryMappedByTechnicalAssetId parsedModel) otherAssetId;
          (trustBoundaryOfOtherAsset, trustBoundaryOfOtherAssetOk) =
            (case trustBoundaryOfOtherAsset of
               None \<Rightarrow> (trustBoundaryOfOtherAsset, trustBoundaryOfOtherAssetOk)
             | Some other \<Rightarrow>
                 if \<not> IsNetworkBoundary (TB_Type other) then
                   (let parent = FindParentTrustBoundary parsedModel other in (parent, parent \<noteq> None))
                 else (trustBoundaryOfOtherAsset, trustBoundaryOfOtherAssetOk))
      in if trustBoundaryOfMyAssetOk \<noteq> trustBoundaryOfOtherAssetOk then False
         else if \<not> trustBoundaryOfMyAssetOk \<and> \<not> trustBoundaryOfOtherAssetOk then True
         else
           (case (trustBoundaryOfMyAsset, trustBoundaryOfOtherAsset) of
              (Some my, Some other) \<Rightarrow> TB_Id my = TB_Id other
            | _ \<Rightarrow> trustBoundaryOfMyAsset = trustBoundaryOfOtherAsset))"

subsection \<open>accidental\_secret\_leak\_rule.go\<close>

definition Category :: RiskCategory where
  \<open>Category = \<lparr>
     ID = ''accidental-secret-leak'',
     RC_Title = ''Accidental Secret Leak'',
     Description = ''Sourcecode repositories (including their histories) as well as artifact registries can accidentally contain secrets like '' @
       ''checked-in or packaged-in passwords, API tokens, certificates, crypto keys, etc.'',
     Impact = ''If this risk is unmitigated, attackers which have access to affected sourcecode repositories or artifact registries might '' @
       ''find secrets accidentally checked-in.'',
     ASVS = ''V14 - Configuration Verification Requirements'',
     CheatSheet = ''https://cheatsheetseries.owasp.org/cheatsheets/Attack_Surface_Analysis_Cheat_Sheet.html'',
     Action = ''Build Pipeline Hardening'',
     Mitigation = ''Establish measures preventing accidental check-in or package-in of secrets into sourcecode repositories '' @
       ''and artifact registries. This starts by using good .gitignore and .dockerignore files, but does not stop there. '' @
       ''See for example tools like <i>"git-secrets" or "Talisman"</i> to have check-in preventive measures for secrets. '' @
       ''Consider also to regularly scan your repositories for secrets accidentally checked-in using scanning tools like <i>"gitleaks" or "gitrob"</i>.'',
     Check = ''Are recommendations from the linked cheat sheet and referenced ASVS chapter applied?'',
     Function = Operations,
     STRIDE = InformationDisclosure,
     DetectionLogic = ''In-scope sourcecode repositories and artifact registries.'',
     RiskAssessment = ''The risk rating depends on the sensitivity of the technical asset itself and of the data assets processed.'',
     FalsePositives = ''Usually no false positives.'',
     ModelFailurePossibleReason = False,
     CWE = 200
   \<rparr>\<close>

definition SupportedTags :: "string list" where
  "SupportedTags = [''git'', ''nexus'']"

definition skipAsset :: "TechnicalAsset \<Rightarrow> bool" where
  "skipAsset techAsset =
     (OutOfScope techAsset \<or> \<not> GetAttribute (Technologies techAsset) MayContainSecrets)"

text \<open>
  \<open>CalculateSeverity\<close> stands for \<^verbatim>\<open>types.CalculateSeverity\<close>, the table shared by all
  rules that combines a likelihood and an impact into a severity.
\<close>

definition createRisk ::
  "(RiskExploitationLikelihood \<Rightarrow> RiskExploitationImpact \<Rightarrow> 'sev) \<Rightarrow>
     Model \<Rightarrow> TechnicalAsset \<Rightarrow> string \<Rightarrow> string \<Rightarrow> 'sev Risk" where
  "createRisk CalculateSeverity parsedModel technicalAsset prefix details =
     (let prefix = (if length prefix > 0 then '' ('' @ prefix @ '')'' else prefix);
          title = ''<b>Accidental Secret Leak'' @ prefix @ ''</b> risk at <b>'' @
                    TA_Title technicalAsset @ ''</b>'';
          title = (if length details > 0 then title @ '': <u>'' @ details @ ''</u>'' else title);
          impact = LowImpact;
          highestProcessedConfidentiality = HighestProcessedConfidentiality parsedModel technicalAsset;
          highestProcessedIntegrity = HighestProcessedIntegrity parsedModel technicalAsset;
          highestProcessedAvailability = HighestProcessedAvailability parsedModel technicalAsset;
          impact =
            (if Confidentiality_value highestProcessedConfidentiality \<ge> Confidentiality_value Confidential \<or>
                Criticality_value highestProcessedIntegrity \<ge> Criticality_value Critical \<or>
                Criticality_value highestProcessedAvailability \<ge> Criticality_value Critical
             then MediumImpact else impact);
          impact =
            (if highestProcessedConfidentiality = StrictlyConfidential \<or>
                highestProcessedIntegrity = MissionCritical \<or>
                highestProcessedAvailability = MissionCritical
             then HighImpact else impact);
          risk = \<lparr>
            CategoryId = ID Category,
            Severity = CalculateSeverity Unlikely impact,
            ExploitationLikelihood = Unlikely,
            ExploitationImpact = impact,
            Title = title,
            MostRelevantTechnicalAssetId = TA_Id technicalAsset,
            DataBreachProbability = Probable,
            DataBreachTechnicalAssetIDs = [TA_Id technicalAsset],
            SyntheticId = []
          \<rparr>;
          risk = risk\<lparr>SyntheticId := CategoryId risk @ ''@'' @ TA_Id technicalAsset\<rparr>
      in risk)"

text \<open>
  The loop of \<^verbatim>\<open>GenerateRisks\<close> over the sorted identifiers, with the slice \<open>risks\<close> built
  so far. An identifier without an asset in the map would give the nil pointer, whose
  field \<^verbatim>\<open>OutOfScope\<close> cannot be read.
\<close>

fun GenerateRisks_loop ::
  "(RiskExploitationLikelihood \<Rightarrow> RiskExploitationImpact \<Rightarrow> 'sev) \<Rightarrow>
     Model \<Rightarrow> string list \<Rightarrow> 'sev Risk list \<Rightarrow> 'sev Risk list result" where
  "GenerateRisks_loop CalculateSeverity parsedModel [] risks = Inr risks"
| "GenerateRisks_loop CalculateSeverity parsedModel (id' # ids) risks =
     (case map_of (TechnicalAssets parsedModel) id' of
        None \<Rightarrow> Inl NilPointerDereference
      | Some techAsset \<Rightarrow>
          if skipAsset techAsset then GenerateRisks_loop CalculateSeverity parsedModel ids risks
          else
            (let risk =
                   (if IsTaggedWithAny techAsset [''git'']
                    then createRisk CalculateSeverity parsedModel techAsset ''Git'' ''Git Leak Prevention''
                    else createRisk CalculateSeverity parsedModel techAsset [] [])
             in GenerateRisks_loop CalculateSeverity parsedModel ids (risks @ [risk])))"

text \<open>The pair returned is the slice of risks and the error, \<open>None\<close> for \<^verbatim>\<open>nil\<close>.\<close>

definition GenerateRisks ::
  "(RiskExploitationLikelihood \<Rightarrow> RiskExploitationImpact \<Rightarrow> 'sev) \<Rightarrow>
     Model \<Rightarrow> ('sev Risk list \<times> go_error option) result" where
  "GenerateRisks CalculateSeverity parsedModel =
     (case GenerateRisks_loop CalculateSeverity parsedModel (SortedTechnicalAssetIDs parsedModel) [] of
        Inl p \<Rightarrow> Inl p
      | Inr risks \<Rightarrow> Inr (risks, None))"

fun MatchRisk_loop :: "Model \<Rightarrow> string \<Rightarrow> string list \<Rightarrow> bool result" where
  "MatchRisk_loop parsedModel risk [] = Inr False"
| "MatchRisk_loop parsedModel risk (id' # ids) =
     (case map_of (TechnicalAssets parsedModel) id' of
        None \<Rightarrow> Inl NilPointerDereference
      | Some techAsset \<Rightarrow>
          if EqualFold risk (ID Category @ ''@'' @ TA_Id techAsset) \<or>
             EqualFold risk (ID Category @ ''@*'')
          then Inr True
          else MatchRisk_loop parsedModel risk ids)"

definition MatchRisk :: "Model \<Rightarrow> string \<Rightarrow> bool result" where
  "MatchRisk parsedModel risk =
     MatchRisk_loop parsedModel risk (SortedTechnicalAssetIDs parsedModel)"

definition explainRisk :: "Model \<Rightarrow> TechnicalAsset \<Rightarrow> line list" where
  "explainRisk parsedModel technicalAsset =
     (let explanation = [];
          impact = LowImpact
      in if HighestProcessedConfidentiality parsedModel technicalAsset = StrictlyConfidential \<or>
            HighestProcessedIntegrity parsedModel technicalAsset = MissionCritical \<or>
            HighestProcessedAvailability parsedModel technicalAsset = MissionCritical
         then
           (let impact = HighImpact;
                explanation = explanation @ [Sprintf ''    - impact is %v because'' [ArgImpact impact]];
                explanation =
                  (if HighestProcessedConfidentiality parsedModel technicalAsset = StrictlyConfidential
                   then explanation @
                     [Sprintf ''      => highest confidentiality: %v (==%v)''
                        [ArgConfidentiality (HighestProcessedConfidentiality parsedModel technicalAsset),
                         ArgConfidentiality StrictlyConfidential]]
                   else explanation);
                explanation =
                  (if HighestProcessedIntegrity parsedModel technicalAsset = MissionCritical
                   then explanation @
                     [Sprintf ''      => highest integrity: %v (==%v)''
                        [ArgCriticality (HighestProcessedIntegrity parsedModel technicalAsset),
                         ArgCriticality MissionCritical]]
                   else explanation);
                explanation =
                  (if HighestProcessedAvailability parsedModel technicalAsset = MissionCritical
                   then explanation @
                     [Sprintf ''      => highest availability: %v (==%v)''
                        [ArgCriticality (HighestProcessedAvailability parsedModel technicalAsset),
                         ArgCriticality MissionCritical]]
                   else explanation)
            in explanation)
         else if Confidentiality_value (HighestProcessedConfidentiality parsedModel technicalAsset)
                   \<ge> Confidentiality_value Confidential \<or>
                 Criticality_value (HighestProcessedIntegrity parsedModel technicalAsset)
                   \<ge> Criticality_value Critical \<or>
                 Criticality_value (HighestProcessedAvailability parsedModel technicalAsset)
                   \<ge> Criticality_value Critical
         then
           (let impact = MediumImpact;
                explanation = explanation @ [Sprintf ''    - impact is %v because'' [ArgImpact impact]];
                explanation =
                  (if HighestProcessedConfidentiality parsedModel technicalAsset = StrictlyConfidential
                   then explanation @
                     [Sprintf ''     =>  highest confidentiality: %v (>=%v)''
                        [ArgConfidentiality (HighestProcessedConfidentiality parsedModel technicalAsset),
                         ArgConfidentiality Confidential]]
                   else explanation);
                explanation =
                  (if HighestProcessedIntegrity parsedModel technicalAsset = MissionCritical
                   then explanation @
                     [Sprintf ''     =>  highest integrity: %v (==%v)''
                        [ArgCriticality (HighestProcessedIntegrity parsedModel technicalAsset),
                         ArgCriticality Critical]]
                   else explanation);
                explanation =
                  (if HighestProcessedAvailability parsedModel technicalAsset = MissionCritical
                   then explanation @
                     [Sprintf ''     =>  highest availability: %v (==%v)''
                        [ArgCriticality (HighestProcessedAvailability parsedModel technicalAsset),
                         ArgCriticality Critical]]
                   else explanation)
            in explanation)
         else explanation @ [Sprintf ''     - impact is %v (default)'' [ArgImpact impact]])"

text \<open>
  The loop of \<^verbatim>\<open>ExplainRisk\<close>. The slice that \<^verbatim>\<open>explainRisk\<close> returns is made by
  \<^verbatim>\<open>make\<close> and extended in each of its branches, so it is never nil and the test
  \<^verbatim>\<open>riskExplanation != nil\<close> passes.
\<close>

fun ExplainRisk_loop :: "Model \<Rightarrow> string \<Rightarrow> string list \<Rightarrow> line list \<Rightarrow> line list result" where
  "ExplainRisk_loop parsedModel risk [] explanation = Inr explanation"
| "ExplainRisk_loop parsedModel risk (id' # ids) explanation =
     (case map_of (TechnicalAssets parsedModel) id' of
        None \<Rightarrow> Inl NilPointerDereference
      | Some techAsset \<Rightarrow>
          if EqualFold risk (ID Category @ ''@'' @ TA_Id techAsset) \<or>
             EqualFold risk (ID Category @ ''@*'')
          then
            (if \<not> OutOfScope techAsset \<and>
                (GetAttribute (Technologies techAsset) SourcecodeRepository \<or>
                 GetAttribute (Technologies techAsset) ArtifactRegistry)
             then
               (let riskExplanation = explainRisk parsedModel techAsset;
                    explanation =
                      (if length explanation > 0 then explanation @ [Text []] else explanation);
                    explanation = explanation @
                      [Sprintf ''technical asset %q'' [ArgString (TA_Id techAsset)],
                       Sprintf ''  - out of scope: %v (=false)'' [ArgBool (OutOfScope techAsset)],
                       Sprintf ''  - technology: %v (has either [%q, %q])''
                         [ArgTechnologies (Technologies techAsset),
                          ArgAttribute SourcecodeRepository, ArgAttribute ArtifactRegistry]];
                    explanation =
                      (if IsTaggedWithAny techAsset [''git'']
                       then explanation @ [Text (''  is tagged with 'git'' @ [CHR 0x27])]
                       else explanation);
                    explanation = explanation @ riskExplanation
                in ExplainRisk_loop parsedModel risk ids explanation)
             else ExplainRisk_loop parsedModel risk ids explanation)
          else ExplainRisk_loop parsedModel risk ids explanation)"

definition ExplainRisk :: "Model \<Rightarrow> string \<Rightarrow> line list result" where
  "ExplainRisk parsedModel risk =
     ExplainRisk_loop parsedModel risk (SortedTechnicalAssetIDs parsedModel) []"

subsection \<open>Notions of the specification\<close>

text \<open>
  The identity invariant of the data model: every technical asset is stored in the map
  under its own \<^verbatim>\<open>Id\<close>, so identifiers are unique within a model.
\<close>

definition keysAreIds :: "Model \<Rightarrow> bool" where
  "keysAreIds parsedModel = list_all (\<lambda>(k, a). TA_Id a = k) (TechnicalAssets parsedModel)"

text \<open>The technical assets in the order in which the three loops of the rule visit them.\<close>

definition assetsInOrder :: "Model \<Rightarrow> TechnicalAsset list" where
  "assetsInOrder parsedModel =
     List.map_filter (map_of (TechnicalAssets parsedModel)) (SortedTechnicalAssetIDs parsedModel)"

text \<open>The risk that one pass of the loop of \<^verbatim>\<open>GenerateRisks\<close> appends for an asset it does not skip.\<close>

definition riskOfAsset ::
  "(RiskExploitationLikelihood \<Rightarrow> RiskExploitationImpact \<Rightarrow> 'sev) \<Rightarrow>
     Model \<Rightarrow> TechnicalAsset \<Rightarrow> 'sev Risk" where
  "riskOfAsset CalculateSeverity parsedModel techAsset =
     (if IsTaggedWithAny techAsset [''git'']
      then createRisk CalculateSeverity parsedModel techAsset ''Git'' ''Git Leak Prevention''
      else createRisk CalculateSeverity parsedModel techAsset [] [])"

text \<open>
  The impact tier of the specification's severity classifier: High when one of the three
  levels is at its maximum, otherwise Medium when one of them is at least Confidential
  or Critical, otherwise Low.
\<close>

definition impactTier :: "Confidentiality \<Rightarrow> Criticality \<Rightarrow> Criticality \<Rightarrow> RiskExploitationImpact" where
  "impactTier confidentiality integrity availability =
     (if confidentiality = StrictlyConfidential \<or> integrity = MissionCritical \<or>
         availability = MissionCritical
      then HighImpact
      else if Confidentiality_value confidentiality \<ge> Confidentiality_value Confidential \<or>
              Criticality_value integrity \<ge> Criticality_value Critical \<or>
              Criticality_value availability \<ge> Criticality_value Critical
      then MediumImpact
      else LowImpact)"

text \<open>The impact tiers that the lines of an explanation report.\<close>

fun impactOfLine :: "line \<Rightarrow> RiskExploitationImpact option" where
  "impactOfLine (Sprintf f [ArgImpact impact]) = Some impact"
| "impactOfLine _ = None"

definition reportedImpacts :: "line list \<Rightarrow> RiskExploitationImpact list" where
  "reportedImpacts explanation = List.map_filter impactOfLine explanation"

text \<open>
  An in-scope, applicable asset exists: some technical asset of the model is not skipped
  by \<open>skipAsset\<close>.
\<close>

definition hasApplicableAsset :: "Model \<Rightarrow> bool" where
  "hasApplicableAsset parsedModel = list_ex (\<lambda>a. \<not> skipAsset a) (assetsInOrder parsedModel)"

text \<open>
  A boundary is a network-only context when it is network-typed, or is not network-typed
  and has no parent boundary.
\<close>

definition networkOnlyContext :: "Model \<Rightarrow> TrustBoundary \<Rightarrow> bool" where
  "networkOnlyContext parsedModel tb =
     (IsNetworkBoundary (TB_Type tb) \<or>
      (\<not> IsNetworkBoundary (TB_Type tb) \<and> FindParentTrustBoundary parsedModel tb = None))"

text \<open>
  Whether an asset has a recorded containing boundary, directly and after the one-step
  normalization of \<^verbatim>\<open>isSameTrustBoundaryNetworkOnly\<close>: a direct boundary that is not
  network-typed counts when it has a parent.
\<close>

definition hasDirectBoundary :: "Model \<Rightarrow> string \<Rightarrow> bool" where
  "hasDirectBoundary parsedModel assetId =
     (DirectContainingTrustBoundaryMappedByTechnicalAssetId parsedModel assetId \<noteq> None)"

definition hasNormalizedBoundary :: "Model \<Rightarrow> string \<Rightarrow> bool" where
  "hasNormalizedBoundary parsedModel assetId =
     (case DirectContainingTrustBoundaryMappedByTechnicalAssetId parsedModel assetId of
        None \<Rightarrow> False
      | Some None \<Rightarrow> True
      | Some (Some tb) \<Rightarrow>
          IsNetworkBoundary (TB_Type tb) \<or> FindParentTrustBoundary parsedModel tb \<noteq> None)"

subsection \<open>Example models\<close>

definition technology_repository :: Technology where
  "technology_repository =
     \<lparr>Tech_Name = ''sourcecode-repository'',
      Tech_Attributes = (\<lambda>a. a = MayContainSecrets \<or> a = SourcecodeRepository)\<rparr>"

definition technology_secretsOnly :: Technology where
  "technology_secretsOnly =
     \<lparr>Tech_Name = ''vault'', Tech_Attributes = (\<lambda>a. a = MayContainSecrets)\<rparr>"

definition asset_X :: TechnicalAsset where
  "asset_X = \<lparr>TA_Id = ''x'', TA_Title = ''X'', OutOfScope = False,
     Technologies = [technology_repository], Tags = [''git'']\<rparr>"

definition asset_Y :: TechnicalAsset where
  "asset_Y = \<lparr>TA_Id = ''y'', TA_Title = ''Y'', OutOfScope = True,
     Technologies = [technology_repository], Tags = []\<rparr>"

definition asset_V :: TechnicalAsset where
  "asset_V = \<lparr>TA_Id = ''v'', TA_Title = ''V'', OutOfScope = False,
     Technologies = [technology_secretsOnly], Tags = []\<rparr>"

definition boundary_net1 :: TrustBoundary where
  "boundary_net1 = \<lparr>TB_Id = ''net-1'', TB_Type = NetworkKind 0\<rparr>"

definition boundary_net2 :: TrustBoundary where
  "boundary_net2 = \<lparr>TB_Id = ''net-2'', TB_Type = NetworkKind 0\<rparr>"

definition boundary_env :: TrustBoundary where
  "boundary_env = \<lparr>TB_Id = ''env'', TB_Type = ExecutionEnvironment\<rparr>"

text \<open>
  A model with the assets given, every asset processing data of the levels given; asset
  \<open>x\<close> lies in the first network boundary, \<open>y\<close> in the second, and no boundary has a
  parent.
\<close>

definition exampleModel ::
  "(string \<times> TechnicalAsset) list \<Rightarrow> Confidentiality \<Rightarrow> Criticality \<Rightarrow> Criticality \<Rightarrow> Model" where
  "exampleModel assets confidentiality integrity availability =
     \<lparr>TechnicalAssets = assets,
      DirectContainingTrustBoundaryMappedByTechnicalAssetId =
        [''x'' \<mapsto> Some boundary_net1, ''y'' \<mapsto> Some boundary_net2],
      FindParentTrustBoundary = (\<lambda>tb. None),
      HighestProcessedConfidentiality = (\<lambda>a. confidentiality),
      HighestProcessedIntegrity = (\<lambda>a. integrity),
      HighestProcessedAvailability = (\<lambda>a. availability)\<rparr>"

section \<open>Properties\<close>

subsection \<open>The loops visit every technical asset once\<close>

lemma set_SortedTechnicalAssetIDs:
  "set (SortedTechnicalAssetIDs m) = fst ` set (TechnicalAssets m)"
  by (simp add: SortedTechnicalAssetIDs_def)

lemma distinct_SortedTechnicalAssetIDs: "distinct (SortedTechnicalAssetIDs m)"
  by (simp add: SortedTechnicalAssetIDs_def)

lemma SortedTechnicalAssetIDs_Nil_iff:
  "SortedTechnicalAssetIDs m = [] \<longleftrightarrow> TechnicalAssets m = []"
proof -
  have "SortedTechnicalAssetIDs m = [] \<longleftrightarrow> set (SortedTechnicalAssetIDs m) = {}" by simp
  also have "\<dots> \<longleftrightarrow> TechnicalAssets m = []" by (simp add: set_SortedTechnicalAssetIDs)
  finally show ?thesis .
qed

text \<open>No loop of the rule meets the nil pointer: every sorted identifier has its asset.\<close>

lemma lookup_sorted_id:
  assumes "k \<in> set (SortedTechnicalAssetIDs m)"
  shows "\<exists>a. map_of (TechnicalAssets m) k = Some a"
proof -
  from assms have "k \<in> fst ` set (TechnicalAssets m)"
    by (simp add: set_SortedTechnicalAssetIDs)
  then have "map_of (TechnicalAssets m) k \<noteq> None"
    by (simp add: map_of_eq_None_iff)
  then show ?thesis by blast
qed

lemma all_sorted_ids_found:
  "\<forall>k \<in> set (SortedTechnicalAssetIDs m). \<exists>a. map_of (TechnicalAssets m) k = Some a"
  using lookup_sorted_id by blast

lemma set_map_filter_Some:
  "set (List.map_filter f xs) = {y. \<exists>x \<in> set xs. f x = Some y}"
  by (induction xs) (auto split: option.splits)

lemma set_assetsInOrder:
  "set (assetsInOrder m) = {a. \<exists>k. map_of (TechnicalAssets m) k = Some a}"
proof -
  have "k \<in> set (SortedTechnicalAssetIDs m)" if "map_of (TechnicalAssets m) k = Some a" for k a
  proof -
    from that have "(k, a) \<in> set (TechnicalAssets m)" by (rule map_of_SomeD)
    then have "k \<in> fst ` set (TechnicalAssets m)" by force
    then show ?thesis by (simp add: set_SortedTechnicalAssetIDs)
  qed
  then show ?thesis
    by (auto simp: assetsInOrder_def set_map_filter_Some)
qed

lemma map_filter_map_of_ids:
  assumes "list_all (\<lambda>(k, a). TA_Id a = k) assets"
    and "\<forall>k \<in> set ids. \<exists>a. map_of assets k = Some a"
  shows "map TA_Id (List.map_filter (map_of assets) ids) = ids"
  using assms(2)
proof (induction ids)
  case Nil
  then show ?case by simp
next
  case (Cons k ids)
  then obtain a where a: "map_of assets k = Some a" by auto
  then have "(k, a) \<in> set assets" by (rule map_of_SomeD)
  with assms(1) have "TA_Id a = k" by (auto simp: list_all_iff)
  with a Cons show ?case by simp
qed

lemma assetsInOrder_ids:
  assumes "keysAreIds m"
  shows "map TA_Id (assetsInOrder m) = SortedTechnicalAssetIDs m"
  using assms all_sorted_ids_found [of m]
  unfolding assetsInOrder_def keysAreIds_def by (rule map_filter_map_of_ids)

lemma filter_key_distinct:
  assumes "distinct (map f xs)" and "x \<in> set xs"
  shows "filter (\<lambda>y. f y = f x) xs = [x]"
  using assms
proof (induction xs)
  case Nil
  then show ?case by simp
next
  case (Cons y ys)
  show ?case
  proof (cases "y = x")
    case True
    with Cons.prems have "f x \<notin> f ` set ys" by simp
    then have "\<forall>z \<in> set ys. f z \<noteq> f x" by (metis imageI)
    then have "filter (\<lambda>z. f z = f x) ys = []" by (simp add: filter_empty_conv)
    with True show ?thesis by simp
  next
    case False
    with Cons.prems have "x \<in> set ys" and "f y \<noteq> f x" and "distinct (map f ys)" by auto
    with Cons.IH show ?thesis by simp
  qed
qed

subsection \<open>GenerateRisks\<close>

lemma createRisk_impact:
  "ExploitationImpact (createRisk calc m a p d) =
     impactTier (HighestProcessedConfidentiality m a) (HighestProcessedIntegrity m a)
       (HighestProcessedAvailability m a)"
  by (simp add: createRisk_def impactTier_def Let_def)

lemma createRisk_severity:
  "Severity (createRisk calc m a p d) = calc Unlikely (ExploitationImpact (createRisk calc m a p d))"
  by (simp add: createRisk_def Let_def)

lemma GenerateRisks_loop_eq:
  assumes "\<forall>k \<in> set ids. \<exists>a. map_of (TechnicalAssets m) k = Some a"
  shows "GenerateRisks_loop calc m ids acc =
           Inr (acc @ map (riskOfAsset calc m)
                  (filter (\<lambda>a. \<not> skipAsset a) (List.map_filter (map_of (TechnicalAssets m)) ids)))"
  using assms
proof (induction ids arbitrary: acc)
  case Nil
  then show ?case by simp
next
  case (Cons k ids)
  then obtain a where a: "map_of (TechnicalAssets m) k = Some a" by auto
  from Cons.prems have rest: "\<forall>k \<in> set ids. \<exists>a. map_of (TechnicalAssets m) k = Some a" by simp
  show ?case
    using a Cons.IH [OF rest] by (simp add: riskOfAsset_def Let_def)
qed

text \<open>
  \<^verbatim>\<open>GenerateRisks\<close> returns, in the order of the sorted identifiers, the risk of every
  asset that \<open>skipAsset\<close> lets through, and the nil error.
\<close>

lemma GenerateRisks_eq:
  "GenerateRisks calc m =
     Inr (map (riskOfAsset calc m) (filter (\<lambda>a. \<not> skipAsset a) (assetsInOrder m)), None)"
  using all_sorted_ids_found [of m]
  by (simp add: GenerateRisks_def GenerateRisks_loop_eq assetsInOrder_def)

lemma MostRelevant_riskOfAsset:
  "MostRelevantTechnicalAssetId (riskOfAsset calc m a) = TA_Id a"
  by (simp add: riskOfAsset_def createRisk_def Let_def)

lemma SyntheticId_riskOfAsset:
  "SyntheticId (riskOfAsset calc m a) = ID Category @ ''@'' @ TA_Id a"
  by (simp add: riskOfAsset_def createRisk_def Let_def)

lemma risks_for_asset:
  assumes wf: "keysAreIds m" and a: "map_of (TechnicalAssets m) k = Some a"
  shows "filter (\<lambda>r. MostRelevantTechnicalAssetId r = TA_Id a)
           (map (riskOfAsset calc m) (filter (\<lambda>a. \<not> skipAsset a) (assetsInOrder m)))
         = (if skipAsset a then [] else [riskOfAsset calc m a])"
proof -
  have mem: "a \<in> set (assetsInOrder m)" using a by (auto simp: set_assetsInOrder)
  have "distinct (map TA_Id (assetsInOrder m))"
    using wf by (simp add: assetsInOrder_ids distinct_SortedTechnicalAssetIDs)
  then have one: "filter (\<lambda>b. TA_Id b = TA_Id a) (assetsInOrder m) = [a]"
    using mem by (rule filter_key_distinct)
  have "filter (\<lambda>r. MostRelevantTechnicalAssetId r = TA_Id a)
           (map (riskOfAsset calc m) (filter (\<lambda>a. \<not> skipAsset a) (assetsInOrder m)))
        = map (riskOfAsset calc m)
            (filter (\<lambda>b. \<not> skipAsset b) (filter (\<lambda>b. TA_Id b = TA_Id a) (assetsInOrder m)))"
    by (simp add: filter_map o_def MostRelevant_riskOfAsset conj_commute)
  also have "\<dots> = (if skipAsset a then [] else [riskOfAsset calc m a])"
    by (simp add: one)
  finally show ?thesis .
qed

text \<open>
  Claim C2. For every technical asset, the impact that \<^verbatim>\<open>createRisk\<close> computes, stores
  in the risk and passes to the severity calculation is the tier of the specification:
  High if the highest processed confidentiality is StrictlyConfidential or the highest
  processed integrity or availability is MissionCritical; otherwise Medium if the
  confidentiality is at least Confidential or the integrity or availability is at least
  Critical; otherwise Low. The code reaches it by two assignments in sequence (Medium,
  then High over it), the specification by a case distinction.
\<close>

theorem createRisk_impact_tier:
  "ExploitationImpact (createRisk CalculateSeverity m a prefix details) =
     impactTier (HighestProcessedConfidentiality m a) (HighestProcessedIntegrity m a)
       (HighestProcessedAvailability m a) \<and>
   Severity (createRisk CalculateSeverity m a prefix details) =
     CalculateSeverity Unlikely
       (impactTier (HighestProcessedConfidentiality m a) (HighestProcessedIntegrity m a)
          (HighestProcessedAvailability m a))"
  by (simp add: createRisk_severity createRisk_impact)

text \<open>
  Claim C4. In a model whose assets are stored under their own identifiers,
  \<^verbatim>\<open>GenerateRisks\<close> returns, for a technical asset that is out of scope or whose
  technologies lack the may-contain-secrets attribute, no risk, and for every other
  technical asset exactly one risk; the synthetic identifier of that risk is the category
  identifier, \<open>@\<close> and the asset's identifier. The risks of an asset are those whose most
  relevant technical asset it is.
\<close>

theorem GenerateRisks_one_risk_per_applicable_asset:
  assumes "keysAreIds m" and "map_of (TechnicalAssets m) k = Some a"
  shows "\<exists>risks. GenerateRisks CalculateSeverity m = Inr (risks, None) \<and>
           (if OutOfScope a \<or> \<not> GetAttribute (Technologies a) MayContainSecrets
            then filter (\<lambda>r. MostRelevantTechnicalAssetId r = TA_Id a) risks = []
            else \<exists>risk. filter (\<lambda>r. MostRelevantTechnicalAssetId r = TA_Id a) risks = [risk] \<and>
                   SyntheticId risk = ID Category @ ''@'' @ TA_Id a)"
proof -
  let ?risks = "map (riskOfAsset CalculateSeverity m) (filter (\<lambda>a. \<not> skipAsset a) (assetsInOrder m))"
  have gen: "GenerateRisks CalculateSeverity m = Inr (?risks, None)" by (rule GenerateRisks_eq)
  have sel: "filter (\<lambda>r. MostRelevantTechnicalAssetId r = TA_Id a) ?risks
               = (if skipAsset a then [] else [riskOfAsset CalculateSeverity m a])"
    using assms by (rule risks_for_asset)
  show ?thesis
  proof (cases "skipAsset a")
    case True
    with gen sel show ?thesis by (auto simp: skipAsset_def)
  next
    case False
    with sel have "filter (\<lambda>r. MostRelevantTechnicalAssetId r = TA_Id a) ?risks
                     = [riskOfAsset CalculateSeverity m a]"
      by simp
    moreover from False have "\<not> (OutOfScope a \<or> \<not> GetAttribute (Technologies a) MayContainSecrets)"
      by (simp add: skipAsset_def)
    ultimately show ?thesis using gen by (simp add: SyntheticId_riskOfAsset)
  qed
qed

text \<open>
  The theorem at a model of two assets stored under their identifiers: \<open>x\<close>, in scope and
  with a technology that may contain secrets, has one risk; \<open>y\<close>, out of scope, has none.
\<close>

theorem GenerateRisks_one_risk_per_applicable_asset_witness:
  "keysAreIds (exampleModel [(''x'', asset_X), (''y'', asset_Y)] Public Archive Archive) \<and>
   map_of (TechnicalAssets (exampleModel [(''x'', asset_X), (''y'', asset_Y)] Public Archive Archive)) ''x''
     = Some asset_X \<and>
   map_of (TechnicalAssets (exampleModel [(''x'', asset_X), (''y'', asset_Y)] Public Archive Archive)) ''y''
     = Some asset_Y \<and>
   (\<exists>risks. GenerateRisks Pair (exampleModel [(''x'', asset_X), (''y'', asset_Y)] Public Archive Archive)
              = Inr (risks, None) \<and>
      (\<exists>risk. filter (\<lambda>r. MostRelevantTechnicalAssetId r = ''x'') risks = [risk] \<and>
               SyntheticId risk = ''accidental-secret-leak@x'') \<and>
      filter (\<lambda>r. MostRelevantTechnicalAssetId r = ''y'') risks = [])"
proof -
  let ?m = "exampleModel [(''x'', asset_X), (''y'', asset_Y)] Public Archive Archive"
  have wf: "keysAreIds ?m"
    by (simp add: keysAreIds_def exampleModel_def asset_X_def asset_Y_def)
  have x: "map_of (TechnicalAssets ?m) ''x'' = Some asset_X"
    by (simp add: exampleModel_def)
  have y: "map_of (TechnicalAssets ?m) ''y'' = Some asset_Y"
    by (simp add: exampleModel_def)
  have inX: "\<not> (OutOfScope asset_X \<or> \<not> GetAttribute (Technologies asset_X) MayContainSecrets)"
    by (simp add: asset_X_def GetAttribute_def technology_repository_def)
  have outY: "OutOfScope asset_Y \<or> \<not> GetAttribute (Technologies asset_Y) MayContainSecrets"
    by (simp add: asset_Y_def)
  have idX: "TA_Id asset_X = ''x''" and idY: "TA_Id asset_Y = ''y''"
    by (simp_all add: asset_X_def asset_Y_def)
  have cat: "ID Category @ ''@'' @ ''x'' = ''accidental-secret-leak@x''"
    by (simp add: Category_def)
  from GenerateRisks_one_risk_per_applicable_asset [OF wf x, of Pair] inX idX cat
  obtain risks risk where
    gen: "GenerateRisks Pair ?m = Inr (risks, None)" and
    one: "filter (\<lambda>r. MostRelevantTechnicalAssetId r = ''x'') risks = [risk]" and
    syn: "SyntheticId risk = ''accidental-secret-leak@x''"
    by auto
  from GenerateRisks_one_risk_per_applicable_asset [OF wf y, of Pair] outY idY
  obtain risks' where
    gen': "GenerateRisks Pair ?m = Inr (risks', None)" and
    none: "filter (\<lambda>r. MostRelevantTechnicalAssetId r = ''y'') risks' = []"
    by auto
  from gen gen' have "risks' = risks" by simp
  with wf x y gen one syn none show ?thesis by blast
qed

text \<open>The maximum of each enumeration is the level of value 4.\<close>

lemma Confidentiality_max: "c = StrictlyConfidential \<longleftrightarrow> 4 \<le> Confidentiality_value c"
  by (cases c) simp_all

lemma Criticality_max: "c = MissionCritical \<longleftrightarrow> 4 \<le> Criticality_value c"
  by (cases c) simp_all

lemma impactTier_mono:
  assumes "Confidentiality_value c \<le> Confidentiality_value c'"
    and "Criticality_value i \<le> Criticality_value i'"
    and "Criticality_value a \<le> Criticality_value a'"
  shows "RiskExploitationImpact_value (impactTier c i a) \<le> RiskExploitationImpact_value (impactTier c' i' a')"
  using assms by (auto simp: impactTier_def Confidentiality_max Criticality_max)

text \<open>
  Claim C8. For every technical asset, when the highest processed confidentiality,
  integrity and availability of a model are each at most those of another model, the
  impact tier that \<^verbatim>\<open>createRisk\<close> computes in the first is at most the tier it computes
  in the second, in the order Low \<open>\<le>\<close> Medium \<open>\<le>\<close> High. Raising one level and holding
  the other two fixed is the case in which two of the three comparisons are equalities.
\<close>

theorem createRisk_impact_monotone:
  assumes "Confidentiality_value (HighestProcessedConfidentiality m a)
             \<le> Confidentiality_value (HighestProcessedConfidentiality m' a)"
    and "Criticality_value (HighestProcessedIntegrity m a)
             \<le> Criticality_value (HighestProcessedIntegrity m' a)"
    and "Criticality_value (HighestProcessedAvailability m a)
             \<le> Criticality_value (HighestProcessedAvailability m' a)"
  shows "RiskExploitationImpact_value (ExploitationImpact (createRisk CalculateSeverity m a prefix details))
           \<le> RiskExploitationImpact_value (ExploitationImpact (createRisk CalculateSeverity m' a prefix details))"
  unfolding createRisk_impact using assms by (rule impactTier_mono)

text \<open>
  The theorem at an asset whose confidentiality is raised from Internal to
  StrictlyConfidential, integrity and availability staying at Archive.
\<close>

theorem createRisk_impact_monotone_witness:
  "Confidentiality_value (HighestProcessedConfidentiality (exampleModel [] Internal Archive Archive) asset_X)
     \<le> Confidentiality_value (HighestProcessedConfidentiality (exampleModel [] StrictlyConfidential Archive Archive) asset_X) \<and>
   Criticality_value (HighestProcessedIntegrity (exampleModel [] Internal Archive Archive) asset_X)
     \<le> Criticality_value (HighestProcessedIntegrity (exampleModel [] StrictlyConfidential Archive Archive) asset_X) \<and>
   Criticality_value (HighestProcessedAvailability (exampleModel [] Internal Archive Archive) asset_X)
     \<le> Criticality_value (HighestProcessedAvailability (exampleModel [] StrictlyConfidential Archive Archive) asset_X) \<and>
   RiskExploitationImpact_value
     (ExploitationImpact (createRisk Pair (exampleModel [] Internal Archive Archive) asset_X [] []))
     \<le> RiskExploitationImpact_value
         (ExploitationImpact (createRisk Pair (exampleModel [] StrictlyConfidential Archive Archive) asset_X [] []))"
proof -
  let ?m = "exampleModel [] Internal Archive Archive"
  let ?m' = "exampleModel [] StrictlyConfidential Archive Archive"
  have c: "Confidentiality_value (HighestProcessedConfidentiality ?m asset_X)
             \<le> Confidentiality_value (HighestProcessedConfidentiality ?m' asset_X)"
    by (simp add: exampleModel_def)
  have i: "Criticality_value (HighestProcessedIntegrity ?m asset_X)
             \<le> Criticality_value (HighestProcessedIntegrity ?m' asset_X)"
    by (simp add: exampleModel_def)
  have a: "Criticality_value (HighestProcessedAvailability ?m asset_X)
             \<le> Criticality_value (HighestProcessedAvailability ?m' asset_X)"
    by (simp add: exampleModel_def)
  from c i a createRisk_impact_monotone [OF c i a, of Pair "[]" "[]"] show ?thesis by blast
qed

lemma git_tag_found:
  assumes "''git'' \<in> set tags"
  shows "containsCaseInsensitiveAny tags [''git'']"
  using assms by (induction tags) auto

lemma createRisk_Git_title:
  "Title (createRisk calc m a ''Git'' ''Git Leak Prevention'') =
     ''<b>Accidental Secret Leak '' @ ''(Git)'' @ (''</b> risk at <b>'' @ TA_Title a @ ''</b>: <u>Git Leak Prevention</u>'')"
  by (simp add: createRisk_def Let_def)

text \<open>
  Claim C9. In a model whose assets are stored under their own identifiers, for an
  in-scope technical asset that has the tag \<open>git\<close>, a technology that may contain secrets
  and the highest processed confidentiality StrictlyConfidential, \<^verbatim>\<open>GenerateRisks\<close>
  returns exactly one risk for the asset; its impact is High, its likelihood Unlikely,
  its severity what the severity calculation gives for Unlikely and High, and its title
  contains \<open>(Git)\<close>.
\<close>

theorem GenerateRisks_git_scenario:
  assumes "keysAreIds m" and "map_of (TechnicalAssets m) k = Some a"
    and "\<not> OutOfScope a" and "''git'' \<in> set (Tags a)"
    and "GetAttribute (Technologies a) MayContainSecrets"
    and "HighestProcessedConfidentiality m a = StrictlyConfidential"
  shows "\<exists>risks risk. GenerateRisks CalculateSeverity m = Inr (risks, None) \<and>
           filter (\<lambda>r. MostRelevantTechnicalAssetId r = TA_Id a) risks = [risk] \<and>
           ExploitationImpact risk = HighImpact \<and>
           ExploitationLikelihood risk = Unlikely \<and>
           Severity risk = CalculateSeverity Unlikely HighImpact \<and>
           (\<exists>before after. Title risk = before @ ''(Git)'' @ after)"
proof -
  let ?risks = "map (riskOfAsset CalculateSeverity m) (filter (\<lambda>a. \<not> skipAsset a) (assetsInOrder m))"
  let ?risk = "createRisk CalculateSeverity m a ''Git'' ''Git Leak Prevention''"
  have gen: "GenerateRisks CalculateSeverity m = Inr (?risks, None)" by (rule GenerateRisks_eq)
  have "\<not> skipAsset a" using assms(3,5) by (simp add: skipAsset_def)
  moreover have "riskOfAsset CalculateSeverity m a = ?risk"
    using assms(4) by (simp add: riskOfAsset_def IsTaggedWithAny_def git_tag_found)
  ultimately have one: "filter (\<lambda>r. MostRelevantTechnicalAssetId r = TA_Id a) ?risks = [?risk]"
    using risks_for_asset [OF assms(1,2), of CalculateSeverity] by simp
  have impact: "ExploitationImpact ?risk = HighImpact"
    using assms(6) by (simp add: createRisk_impact impactTier_def)
  have likelihood: "ExploitationLikelihood ?risk = Unlikely"
    by (simp add: createRisk_def Let_def)
  have severity: "Severity ?risk = CalculateSeverity Unlikely HighImpact"
    using impact by (simp add: createRisk_severity)
  have title: "\<exists>before after. Title ?risk = before @ ''(Git)'' @ after"
    using createRisk_Git_title by blast
  from gen one impact likelihood severity title show ?thesis by blast
qed

text \<open>The theorem at the model whose only asset is such an asset.\<close>

theorem GenerateRisks_git_scenario_witness:
  "keysAreIds (exampleModel [(''x'', asset_X)] StrictlyConfidential Archive Archive) \<and>
   map_of (TechnicalAssets (exampleModel [(''x'', asset_X)] StrictlyConfidential Archive Archive)) ''x''
     = Some asset_X \<and>
   \<not> OutOfScope asset_X \<and> ''git'' \<in> set (Tags asset_X) \<and>
   GetAttribute (Technologies asset_X) MayContainSecrets \<and>
   HighestProcessedConfidentiality (exampleModel [(''x'', asset_X)] StrictlyConfidential Archive Archive) asset_X
     = StrictlyConfidential \<and>
   (\<exists>risks risk. GenerateRisks Pair (exampleModel [(''x'', asset_X)] StrictlyConfidential Archive Archive)
        = Inr (risks, None) \<and>
      filter (\<lambda>r. MostRelevantTechnicalAssetId r = ''x'') risks = [risk] \<and>
      ExploitationImpact risk = HighImpact \<and>
      ExploitationLikelihood risk = Unlikely \<and>
      Severity risk = (Unlikely, HighImpact) \<and>
      (\<exists>before after. Title risk = before @ ''(Git)'' @ after))"
proof -
  let ?m = "exampleModel [(''x'', asset_X)] StrictlyConfidential Archive Archive"
  have wf: "keysAreIds ?m"
    by (simp add: keysAreIds_def exampleModel_def asset_X_def)
  have x: "map_of (TechnicalAssets ?m) ''x'' = Some asset_X"
    by (simp add: exampleModel_def)
  have scope: "\<not> OutOfScope asset_X" by (simp add: asset_X_def)
  have tag: "''git'' \<in> set (Tags asset_X)" by (simp add: asset_X_def)
  have attr: "GetAttribute (Technologies asset_X) MayContainSecrets"
    by (simp add: asset_X_def GetAttribute_def technology_repository_def)
  have conf: "HighestProcessedConfidentiality ?m asset_X = StrictlyConfidential"
    by (simp add: exampleModel_def)
  have idX: "TA_Id asset_X = ''x''" by (simp add: asset_X_def)
  from GenerateRisks_git_scenario [OF wf x scope tag attr conf, of Pair] idX
  have "\<exists>risks risk. GenerateRisks Pair ?m = Inr (risks, None) \<and>
      filter (\<lambda>r. MostRelevantTechnicalAssetId r = ''x'') risks = [risk] \<and>
      ExploitationImpact risk = HighImpact \<and>
      ExploitationLikelihood risk = Unlikely \<and>
      Severity risk = (Unlikely, HighImpact) \<and>
      (\<exists>before after. Title risk = before @ ''(Git)'' @ after)"
    by simp
  with wf x scope tag attr conf show ?thesis by blast
qed

text \<open>
  Claim C10. For every model \<^verbatim>\<open>GenerateRisks\<close> returns (it does not panic), and the error
  it returns is nil.
\<close>

theorem GenerateRisks_error_nil:
  "\<exists>risks. GenerateRisks CalculateSeverity m = Inr (risks, None)"
  by (simp add: GenerateRisks_eq)

subsection \<open>MatchRisk\<close>

lemma EqualFold_refl: "EqualFold s s"
  by (simp add: EqualFold_def)

lemma MatchRisk_loop_wildcard:
  assumes "\<forall>k \<in> set ids. \<exists>a. map_of (TechnicalAssets m) k = Some a"
  shows "MatchRisk_loop m (ID Category @ ''@*'') ids = Inr (ids \<noteq> [])"
proof (cases ids)
  case Nil
  then show ?thesis by simp
next
  case (Cons k rest)
  with assms obtain a where "map_of (TechnicalAssets m) k = Some a" by auto
  with Cons show ?thesis by (simp add: EqualFold_refl)
qed

text \<open>
  \<^verbatim>\<open>MatchRisk\<close> tests the identifier only: no pass of its loop looks at the scope or the
  technologies of the asset. For the wildcard identifier it returns true at the first
  technical asset it visits.
\<close>

lemma MatchRisk_wildcard_any_asset:
  "MatchRisk m (ID Category @ ''@*'') = Inr (TechnicalAssets m \<noteq> [])"
  using all_sorted_ids_found [of m]
  by (simp add: MatchRisk_def MatchRisk_loop_wildcard SortedTechnicalAssetIDs_Nil_iff)

text \<open>
  Claim C3 asks that \<^verbatim>\<open>MatchRisk\<close>, called with the category identifier and \<open>@*\<close>, is
  true if and only if the model has a technical asset that is in scope and that
  \<open>skipAsset\<close> lets through. On the model whose only technical asset is out of scope there
  is no such asset: \<^verbatim>\<open>GenerateRisks\<close> produces no risk and \<^verbatim>\<open>ExplainRisk\<close> explains none,
  both leaving the asset out, and \<^verbatim>\<open>MatchRisk\<close> returns true all the same.
\<close>

theorem MatchRisk_wildcard_matches_without_applicable_asset:
  "MatchRisk (exampleModel [(''y'', asset_Y)] Public Archive Archive) (ID Category @ ''@*'')
     = Inr True \<and>
   \<not> hasApplicableAsset (exampleModel [(''y'', asset_Y)] Public Archive Archive) \<and>
   GenerateRisks Pair (exampleModel [(''y'', asset_Y)] Public Archive Archive) = Inr ([], None) \<and>
   ExplainRisk (exampleModel [(''y'', asset_Y)] Public Archive Archive) (ID Category @ ''@*'')
     = Inr []"
  by (simp add: MatchRisk_def GenerateRisks_def ExplainRisk_def SortedTechnicalAssetIDs_def
      exampleModel_def asset_Y_def EqualFold_refl hasApplicableAsset_def assetsInOrder_def
      skipAsset_def)

subsection \<open>ExplainRisk\<close>

text \<open>
  The lines that \<^verbatim>\<open>explainRisk\<close> writes for an asset report one impact, and it is the
  tier that \<^verbatim>\<open>createRisk\<close> computes for the asset.
\<close>

lemma explainRisk_reports_impactTier:
  "reportedImpacts (explainRisk m a) =
     [impactTier (HighestProcessedConfidentiality m a) (HighestProcessedIntegrity m a)
        (HighestProcessedAvailability m a)]"
  by (simp add: explainRisk_def reportedImpacts_def impactTier_def Let_def)

text \<open>
  Claim C1 asks that \<^verbatim>\<open>ExplainRisk\<close>, called with the synthetic identifier of a risk that
  \<^verbatim>\<open>GenerateRisks\<close> produced, reports the impact tier of that risk. \<^verbatim>\<open>GenerateRisks\<close>
  keeps the in-scope assets with a technology that may contain secrets; \<^verbatim>\<open>ExplainRisk\<close>
  explains the in-scope assets with a technology that is a sourcecode repository or an
  artifact registry. On the model whose only asset is in scope and has a technology that
  may contain secrets and is neither of the two, \<^verbatim>\<open>GenerateRisks\<close> produces a risk of Low
  impact and \<^verbatim>\<open>ExplainRisk\<close> returns no line for its identifier: no tier is reported.
\<close>

theorem ExplainRisk_misses_generated_risk:
  "\<exists>risk. GenerateRisks Pair (exampleModel [(''v'', asset_V)] Public Archive Archive) = Inr ([risk], None) \<and>
      SyntheticId risk = ''accidental-secret-leak@v'' \<and>
      ExploitationImpact risk = LowImpact \<and>
      ExplainRisk (exampleModel [(''v'', asset_V)] Public Archive Archive) (SyntheticId risk) = Inr []"
  by (simp add: GenerateRisks_def ExplainRisk_def SortedTechnicalAssetIDs_def exampleModel_def
      asset_V_def technology_secretsOnly_def skipAsset_def GetAttribute_def IsTaggedWithAny_def
      createRisk_def Category_def EqualFold_def Let_def)

subsection \<open>Trust boundaries\<close>

text \<open>
  Claim C7. For two boundaries \<open>a\<close> and \<open>b\<close>, \<^verbatim>\<open>isAcrossNetworkTrustBoundary(a, b)\<close> is
  true if and only if their identifiers differ and the type of \<open>b\<close> is a network kind.
  It is not symmetric: when the identifiers differ and exactly one of the two is
  network-typed, the results for \<open>(a, b)\<close> and \<open>(b, a)\<close> differ.
\<close>

theorem isAcrossNetworkTrustBoundary_directional:
  "isAcrossNetworkTrustBoundary (Some a) (Some b)
     = Inr (TB_Id a \<noteq> TB_Id b \<and> IsNetworkBoundary (TB_Type b)) \<and>
   (TB_Id a \<noteq> TB_Id b \<and> IsNetworkBoundary (TB_Type a) \<noteq> IsNetworkBoundary (TB_Type b) \<longrightarrow>
      isAcrossNetworkTrustBoundary (Some a) (Some b) \<noteq> isAcrossNetworkTrustBoundary (Some b) (Some a))"
  by (auto simp: isAcrossNetworkTrustBoundary_def)

text \<open>The theorem at an execution environment and a network boundary.\<close>

theorem isAcrossNetworkTrustBoundary_directional_witness:
  "TB_Id boundary_env \<noteq> TB_Id boundary_net1 \<and>
   IsNetworkBoundary (TB_Type boundary_env) \<noteq> IsNetworkBoundary (TB_Type boundary_net1) \<and>
   isAcrossNetworkTrustBoundary (Some boundary_env) (Some boundary_net1) = Inr True \<and>
   isAcrossNetworkTrustBoundary (Some boundary_net1) (Some boundary_env) = Inr False \<and>
   isAcrossNetworkTrustBoundary (Some boundary_env) (Some boundary_net1)
     \<noteq> isAcrossNetworkTrustBoundary (Some boundary_net1) (Some boundary_env)"
proof -
  have ids: "TB_Id boundary_env \<noteq> TB_Id boundary_net1"
    by (simp add: boundary_env_def boundary_net1_def)
  have kinds: "IsNetworkBoundary (TB_Type boundary_env) \<noteq> IsNetworkBoundary (TB_Type boundary_net1)"
    by (simp add: boundary_env_def boundary_net1_def)
  have net: "IsNetworkBoundary (TB_Type boundary_net1)" "\<not> IsNetworkBoundary (TB_Type boundary_env)"
    by (simp_all add: boundary_env_def boundary_net1_def)
  from isAcrossNetworkTrustBoundary_directional [of boundary_env boundary_net1]
       isAcrossNetworkTrustBoundary_directional [of boundary_net1 boundary_env] ids kinds net
  show ?thesis by auto
qed

lemma isNetworkOnly_eq:
  "isNetworkOnly m ok tb =
     (if \<not> ok then Inr False
      else case tb of None \<Rightarrow> Inl NilPointerDereference | Some b \<Rightarrow> Inr (networkOnlyContext m b))"
  by (auto simp: isNetworkOnly_def networkOnlyContext_def Let_def split: option.splits)

text \<open>
  Claim C5. \<^verbatim>\<open>isAcrossTrustBoundaryNetworkOnly\<close> returns true if and only if the map of
  direct containing trust boundaries records a boundary for the source and for the target
  of the link, both are network-only contexts, their identifiers differ and the target's
  is network-typed. An asset without a recorded boundary makes it false: the source
  always, the target whenever the function gets as far as the target, that is unless
  the entry recorded for the source is the nil pointer, which the function cannot read.
\<close>

theorem isAcrossTrustBoundaryNetworkOnly_iff:
  "(isAcrossTrustBoundaryNetworkOnly m link = Inr True \<longleftrightarrow>
      (\<exists>s t. DirectContainingTrustBoundaryMappedByTechnicalAssetId m (SourceId link) = Some (Some s) \<and>
             DirectContainingTrustBoundaryMappedByTechnicalAssetId m (TargetId link) = Some (Some t) \<and>
             networkOnlyContext m s \<and> networkOnlyContext m t \<and>
             TB_Id s \<noteq> TB_Id t \<and> IsNetworkBoundary (TB_Type t))) \<and>
   (DirectContainingTrustBoundaryMappedByTechnicalAssetId m (SourceId link) = None \<longrightarrow>
      isAcrossTrustBoundaryNetworkOnly m link = Inr False) \<and>
   (DirectContainingTrustBoundaryMappedByTechnicalAssetId m (TargetId link) = None \<and>
    DirectContainingTrustBoundaryMappedByTechnicalAssetId m (SourceId link) \<noteq> Some None \<longrightarrow>
      isAcrossTrustBoundaryNetworkOnly m link = Inr False)"
  by (auto simp: isAcrossTrustBoundaryNetworkOnly_def isNetworkOnly_eq commaOk_def
      isAcrossNetworkTrustBoundary_def split: option.splits)

text \<open>
  The theorem at a model with \<open>x\<close> and \<open>y\<close> in two network boundaries and no boundary
  for \<open>z\<close>.
\<close>

theorem isAcrossTrustBoundaryNetworkOnly_iff_witness:
  "DirectContainingTrustBoundaryMappedByTechnicalAssetId (exampleModel [] Public Archive Archive) ''x''
     = Some (Some boundary_net1) \<and>
   DirectContainingTrustBoundaryMappedByTechnicalAssetId (exampleModel [] Public Archive Archive) ''y''
     = Some (Some boundary_net2) \<and>
   DirectContainingTrustBoundaryMappedByTechnicalAssetId (exampleModel [] Public Archive Archive) ''z''
     = None \<and>
   networkOnlyContext (exampleModel [] Public Archive Archive) boundary_net1 \<and>
   networkOnlyContext (exampleModel [] Public Archive Archive) boundary_net2 \<and>
   TB_Id boundary_net1 \<noteq> TB_Id boundary_net2 \<and> IsNetworkBoundary (TB_Type boundary_net2) \<and>
   isAcrossTrustBoundaryNetworkOnly (exampleModel [] Public Archive Archive)
     \<lparr>SourceId = ''x'', TargetId = ''y''\<rparr> = Inr True \<and>
   isAcrossTrustBoundaryNetworkOnly (exampleModel [] Public Archive Archive)
     \<lparr>SourceId = ''z'', TargetId = ''y''\<rparr> = Inr False \<and>
   isAcrossTrustBoundaryNetworkOnly (exampleModel [] Public Archive Archive)
     \<lparr>SourceId = ''x'', TargetId = ''z''\<rparr> = Inr False"
proof -
  let ?m = "exampleModel [] Public Archive Archive"
  let ?map = "DirectContainingTrustBoundaryMappedByTechnicalAssetId ?m"
  have x: "?map ''x'' = Some (Some boundary_net1)"
    and y: "?map ''y'' = Some (Some boundary_net2)"
    and z: "?map ''z'' = None"
    by (simp_all add: exampleModel_def)
  have ctx1: "networkOnlyContext ?m boundary_net1" and ctx2: "networkOnlyContext ?m boundary_net2"
    by (simp_all add: networkOnlyContext_def boundary_net1_def boundary_net2_def)
  have ids: "TB_Id boundary_net1 \<noteq> TB_Id boundary_net2"
    by (simp add: boundary_net1_def boundary_net2_def)
  have net: "IsNetworkBoundary (TB_Type boundary_net2)"
    by (simp add: boundary_net2_def)
  have across: "isAcrossTrustBoundaryNetworkOnly ?m \<lparr>SourceId = ''x'', TargetId = ''y''\<rparr> = Inr True"
    using isAcrossTrustBoundaryNetworkOnly_iff [of ?m "\<lparr>SourceId = ''x'', TargetId = ''y''\<rparr>"]
      x y ctx1 ctx2 ids net by simp
  have noSource: "isAcrossTrustBoundaryNetworkOnly ?m \<lparr>SourceId = ''z'', TargetId = ''y''\<rparr> = Inr False"
    using isAcrossTrustBoundaryNetworkOnly_iff [of ?m "\<lparr>SourceId = ''z'', TargetId = ''y''\<rparr>"] z
    by simp
  have noTarget: "isAcrossTrustBoundaryNetworkOnly ?m \<lparr>SourceId = ''x'', TargetId = ''z''\<rparr> = Inr False"
    using isAcrossTrustBoundaryNetworkOnly_iff [of ?m "\<lparr>SourceId = ''x'', TargetId = ''z''\<rparr>"] x z
    by simp
  from x y z ctx1 ctx2 ids net across noSource noTarget show ?thesis by blast
qed

text \<open>
  Claim C6. An asset has a recorded boundary when the map of direct containing trust
  boundaries has an entry for its identifier. When neither of two assets has one,
  \<^verbatim>\<open>isSameExecutionEnvironment\<close> and \<^verbatim>\<open>isSameTrustBoundaryNetworkOnly\<close> return true.
  When exactly one has one, \<^verbatim>\<open>isSameExecutionEnvironment\<close> returns false; when exactly one
  has one after the one-step normalization, \<^verbatim>\<open>isSameTrustBoundaryNetworkOnly\<close> returns
  false.
\<close>

theorem trust_boundary_absent_cases:
  "(\<not> hasDirectBoundary m (TA_Id ta) \<and> \<not> hasDirectBoundary m otherAssetId \<longrightarrow>
      isSameExecutionEnvironment m ta otherAssetId = Inr True \<and>
      isSameTrustBoundaryNetworkOnly m ta otherAssetId) \<and>
   (hasDirectBoundary m (TA_Id ta) \<noteq> hasDirectBoundary m otherAssetId \<longrightarrow>
      isSameExecutionEnvironment m ta otherAssetId = Inr False) \<and>
   (hasNormalizedBoundary m (TA_Id ta) \<noteq> hasNormalizedBoundary m otherAssetId \<longrightarrow>
      \<not> isSameTrustBoundaryNetworkOnly m ta otherAssetId)"
  by (auto simp: isSameExecutionEnvironment_def isSameTrustBoundaryNetworkOnly_def commaOk_def
      hasDirectBoundary_def hasNormalizedBoundary_def Let_def split: option.splits)

text \<open>
  The theorem at a model in which \<open>x\<close> lies in a network boundary, and \<open>v\<close> and \<open>w\<close> in
  none.
\<close>

theorem trust_boundary_absent_cases_witness:
  "\<not> hasDirectBoundary (exampleModel [] Public Archive Archive) (TA_Id asset_V) \<and>
   \<not> hasDirectBoundary (exampleModel [] Public Archive Archive) ''w'' \<and>
   isSameExecutionEnvironment (exampleModel [] Public Archive Archive) asset_V ''w'' = Inr True \<and>
   isSameTrustBoundaryNetworkOnly (exampleModel [] Public Archive Archive) asset_V ''w'' \<and>
   hasDirectBoundary (exampleModel [] Public Archive Archive) (TA_Id asset_X) \<and>
   hasNormalizedBoundary (exampleModel [] Public Archive Archive) (TA_Id asset_X) \<and>
   \<not> hasNormalizedBoundary (exampleModel [] Public Archive Archive) ''w'' \<and>
   isSameExecutionEnvironment (exampleModel [] Public Archive Archive) asset_X ''w'' = Inr False \<and>
   \<not> isSameTrustBoundaryNetworkOnly (exampleModel [] Public Archive Archive) asset_X ''w''"
proof -
  let ?m = "exampleModel [] Public Archive Archive"
  have v: "\<not> hasDirectBoundary ?m (TA_Id asset_V)" and w: "\<not> hasDirectBoundary ?m ''w''"
    and x: "hasDirectBoundary ?m (TA_Id asset_X)"
    by (simp_all add: hasDirectBoundary_def exampleModel_def asset_V_def asset_X_def)
  have nx: "hasNormalizedBoundary ?m (TA_Id asset_X)" and nw: "\<not> hasNormalizedBoundary ?m ''w''"
    by (simp_all add: hasNormalizedBoundary_def exampleModel_def asset_X_def boundary_net1_def)
  from trust_boundary_absent_cases [of ?m asset_V "''w''"] v w
  have both: "isSameExecutionEnvironment ?m asset_V ''w'' = Inr True"
    "isSameTrustBoundaryNetworkOnly ?m asset_V ''w''"
    by simp_all
  from trust_boundary_absent_cases [of ?m asset_X "''w''"] x w nx nw
  have one: "isSameExecutionEnvironment ?m asset_X ''w'' = Inr False"
    "\<not> isSameTrustBoundaryNetworkOnly ?m asset_X ''w''"
    by simp_all
  from v w x nx nw both one show ?thesis by blast
qed

end
